theory Spec2Isabelle
  imports Main "HOL-Library.Char_ord" "HOL-Library.List_Lexorder" "HOL-Library.Monad_Syntax"
begin

section \<open>Python strings\<close>

text \<open>
  Strings are byte strings (\<open>char list\<close>); a file name is the UTF-8 encoding the
  operating system stores. The order on strings is the lexicographic order on bytes, which
  on UTF-8 agrees with Python's comparison of code points. Lower-casing acts on the ASCII
  letters: the source only tests whether the lower-cased name ends with \<open>.png\<close>.
\<close>

definition startswith :: "string \<Rightarrow> string \<Rightarrow> bool" where
  "startswith s p \<longleftrightarrow> take (length p) s = p"

definition endswith :: "string \<Rightarrow> string \<Rightarrow> bool" where
  "endswith s p \<longleftrightarrow> length p \<le> length s \<and> drop (length s - length p) s = p"

definition lower_char :: "char \<Rightarrow> char" where
  "lower_char c = (if CHR ''A'' \<le> c \<and> c \<le> CHR ''Z'' then char_of (of_char c + (32::nat)) else c)"

definition lower :: "string \<Rightarrow> string" where
  "lower s = map lower_char s"

definition digit_char :: "nat \<Rightarrow> char" where
  "digit_char d = ''0123456789'' ! (d mod 10)"

text \<open>The decimal rendering of a number, as an f-string prints \<open>{idx}\<close>.\<close>

function str_nat :: "nat \<Rightarrow> string" where
  "str_nat n = (if n < 10 then [digit_char n] else str_nat (n div 10) @ [digit_char (n mod 10)])"
  by pat_completeness auto
termination
  by (relation "measure id") auto

declare str_nat.simps [simp del]

section \<open>Timestamps\<close>

text \<open>
  A naive timestamp (no time zone). The sub-second part is kept in nanoseconds, the
  resolution of the registry's timestamp column; a folder name carries none.
\<close>

record datetime =
  year :: nat
  month :: nat
  day :: nat
  hour :: nat
  minute :: nat
  second :: nat
  nanosecond :: nat

definition dt_key :: "datetime \<Rightarrow> nat list" where
  "dt_key t = [year t, month t, day t, hour t, minute t, second t, nanosecond t]"

text \<open>Comparison of two timestamps: lexicographic on the fields, most significant first.\<close>

definition dt_le :: "datetime \<Rightarrow> datetime \<Rightarrow> bool" where
  "dt_le a b \<longleftrightarrow> dt_key a \<le> dt_key b"

definition is_leap :: "nat \<Rightarrow> bool" where
  "is_leap y \<longleftrightarrow> y mod 4 = 0 \<and> (y mod 100 \<noteq> 0 \<or> y mod 400 = 0)"

definition days_in_month :: "nat \<Rightarrow> nat \<Rightarrow> nat" where
  "days_in_month y m =
     (if m = 2 then (if is_leap y then 29 else 28)
      else if m = 4 \<or> m = 6 \<or> m = 9 \<or> m = 11 then 30 else 31)"

text \<open>The constructor of a timestamp refuses a field out of its range, as \<open>datetime(...)\<close> does.\<close>

definition mk_datetime :: "nat \<Rightarrow> nat \<Rightarrow> nat \<Rightarrow> nat \<Rightarrow> nat \<Rightarrow> nat \<Rightarrow> nat \<Rightarrow> datetime option" where
  "mk_datetime y m d H M S ns =
     (if 1 \<le> y \<and> y \<le> 9999 \<and> 1 \<le> m \<and> m \<le> 12 \<and> 1 \<le> d \<and> d \<le> days_in_month y m
         \<and> H \<le> 23 \<and> M \<le> 59 \<and> S \<le> 59 \<and> ns < 1000000000
      then Some \<lparr>year = y, month = m, day = d, hour = H, minute = M, second = S, nanosecond = ns\<rparr>
      else None)"

section \<open>The format directives of strptime\<close>

text \<open>
  \<open>strptime\<close> compiles a format into a regular expression, one group per directive, and
  matches it at the start of the input; the whole input must be consumed. Each directive
  below is the group of that table, its alternatives tried in the table's order. Every
  directive of the formats used here is followed by a literal that is not a digit (or by the
  end of the input), so the first alternative that matches is the one the match keeps.
  A literal of the format matches without regard to case.
\<close>

definition is_digit :: "char \<Rightarrow> bool" where
  "is_digit c \<longleftrightarrow> CHR ''0'' \<le> c \<and> c \<le> CHR ''9''"

definition between :: "char \<Rightarrow> char \<Rightarrow> char \<Rightarrow> bool" where
  "between lo hi c \<longleftrightarrow> lo \<le> c \<and> c \<le> hi"

definition digit_val :: "char \<Rightarrow> nat" where
  "digit_val c = of_char c - 48"

definition int_of_digits :: "string \<Rightarrow> nat" where
  "int_of_digits s = foldl (\<lambda>a c. 10 * a + digit_val c) 0 s"

type_synonym 'a scan = "string \<Rightarrow> ('a \<times> string) option"

definition two :: "(char \<Rightarrow> bool) \<Rightarrow> (char \<Rightarrow> bool) \<Rightarrow> nat scan" where
  "two p q s =
     (case s of a # b # r \<Rightarrow> if p a \<and> q b then Some (10 * digit_val a + digit_val b, r) else None
      | _ \<Rightarrow> None)"

definition one :: "(char \<Rightarrow> bool) \<Rightarrow> nat scan" where
  "one p s = (case s of a # r \<Rightarrow> if p a then Some (digit_val a, r) else None | _ \<Rightarrow> None)"

definition orelse :: "'a option \<Rightarrow> 'a option \<Rightarrow> 'a option" where
  "orelse x y = (case x of Some v \<Rightarrow> Some v | None \<Rightarrow> y)"

definition lit :: "char \<Rightarrow> string \<Rightarrow> string option" where
  "lit c s = (case s of a # r \<Rightarrow> if lower_char a = lower_char c then Some r else None | _ \<Rightarrow> None)"

definition re_Y :: "nat scan" where
  "re_Y s =
     (if 4 \<le> length s \<and> list_all is_digit (take 4 s) then Some (int_of_digits (take 4 s), drop 4 s)
      else None)"

definition re_m :: "nat scan" where
  "re_m s =
     orelse (two (between CHR ''1'' CHR ''1'') (between CHR ''0'' CHR ''2'') s)
    (orelse (two (between CHR ''0'' CHR ''0'') (between CHR ''1'' CHR ''9'') s)
            (one (between CHR ''1'' CHR ''9'') s))"

definition re_d :: "nat scan" where
  "re_d s =
     orelse (two (between CHR ''3'' CHR ''3'') (between CHR ''0'' CHR ''1'') s)
    (orelse (two (between CHR ''1'' CHR ''2'') is_digit s)
    (orelse (two (between CHR ''0'' CHR ''0'') (between CHR ''1'' CHR ''9'') s)
    (orelse (one (between CHR ''1'' CHR ''9'') s)
            (case s of a # r \<Rightarrow> if a = CHR '' '' then one (between CHR ''1'' CHR ''9'') r else None
             | _ \<Rightarrow> None))))"

definition re_H :: "nat scan" where
  "re_H s =
     orelse (two (between CHR ''2'' CHR ''2'') (between CHR ''0'' CHR ''3'') s)
    (orelse (two (between CHR ''0'' CHR ''1'') is_digit s)
            (one is_digit s))"

definition re_M :: "nat scan" where
  "re_M s = orelse (two (between CHR ''0'' CHR ''5'') is_digit s) (one is_digit s)"

definition re_S :: "nat scan" where
  "re_S s =
     orelse (two (between CHR ''6'' CHR ''6'') (between CHR ''0'' CHR ''1'') s)
    (orelse (two (between CHR ''0'' CHR ''5'') is_digit s)
            (one is_digit s))"

text \<open>
  The fraction directive of the registry's parser: one to nine digits, as many as there are,
  read as a decimal fraction of a second (padded on the right to nanoseconds).
\<close>

definition re_f :: "nat scan" where
  "re_f s =
     (let ds = take 9 (takeWhile is_digit s)
      in if ds = [] then None
         else Some (int_of_digits ds * 10 ^ (9 - length ds), drop (length ds) s))"

section \<open>The folder name parser\<close>

text \<open>
  \<open>datetime.strptime(ts_str, "%Y-%m-%d-%H-%M-%S")\<close>. The only exception it raises is
  ValueError, which is the result \<open>None\<close> here.
\<close>

definition strptime_folder :: "string \<Rightarrow> datetime option" where
  "strptime_folder s =
     do {
        (y, s1) \<leftarrow> re_Y s; s2 \<leftarrow> lit CHR ''-'' s1;
        (m, s3) \<leftarrow> re_m s2; s4 \<leftarrow> lit CHR ''-'' s3;
        (d, s5) \<leftarrow> re_d s4; s6 \<leftarrow> lit CHR ''-'' s5;
        (H, s7) \<leftarrow> re_H s6; s8 \<leftarrow> lit CHR ''-'' s7;
        (M, s9) \<leftarrow> re_M s8; s10 \<leftarrow> lit CHR ''-'' s9;
        (S, s11) \<leftarrow> re_S s10;
        if s11 = [] then mk_datetime y m d H M S 0 else None
      }"

text \<open>The result \<open>None\<close> is the ValueError of the source (wrong prefix, or strptime's).\<close>

definition parse_datetime_from_foldername :: "string \<Rightarrow> datetime option" where
  "parse_datetime_from_foldername foldername =
     (let prefix = ''taxan_'' in
      if \<not> startswith foldername prefix then None
      else let ts_str = drop (length prefix) foldername in strptime_folder ts_str)"

section \<open>The registry\<close>

text \<open>
  A cell of the sheet as the reader returns it: a string, an empty cell, or a cell that the
  workbook stores as a date. The identifier column is read as strings (\<open>dtype={"ID": str}\<close>,
  then \<open>astype(str)\<close>), so a row carries its identifier as a string.
\<close>

datatype cell = CStr string | CNaN | CTime datetime

record raw_row =
  raw_ID :: string
  raw_enr :: cell
  raw_maj :: cell

record sheet =
  columns :: "string list"
  rows :: "raw_row list"

definition col_ID :: string where
  "col_ID = ''ID''"

definition col_enr :: string where
  "col_enr = ''Date d'' @ [CHR 0x27] @ ''enregistrement''"

definition col_maj :: string where
  "col_maj = ''Derni'' @ [CHR 0xC3, CHR 0xA8] @ ''re mise '' @ [CHR 0xC3, CHR 0xA0] @ '' jour''"

definition required_cols :: "string list" where
  "required_cols = [col_ID, col_enr, col_maj]"

datatype ts_format = With_fraction | Without_fraction

text \<open>The timestamps a nanosecond column can hold.\<close>

definition in_bounds :: "datetime \<Rightarrow> bool" where
  "in_bounds t \<longleftrightarrow>
     [1677, 9, 21, 0, 12, 43, 145224193] \<le> dt_key t \<and> dt_key t \<le> [2262, 4, 11, 23, 47, 16, 854775807]"

definition date_and_time :: "string \<Rightarrow> ((nat \<times> nat \<times> nat \<times> nat \<times> nat \<times> nat) \<times> string) option" where
  "date_and_time s =
     do {
        (y, s1) \<leftarrow> re_Y s; s2 \<leftarrow> lit CHR ''-'' s1;
        (m, s3) \<leftarrow> re_m s2; s4 \<leftarrow> lit CHR ''-'' s3;
        (d, s5) \<leftarrow> re_d s4; s6 \<leftarrow> lit CHR ''T'' s5;
        (H, s7) \<leftarrow> re_H s6; s8 \<leftarrow> lit CHR '':'' s7;
        (M, s9) \<leftarrow> re_M s8; s10 \<leftarrow> lit CHR '':'' s9;
        (S, s11) \<leftarrow> re_S s10;
        Some ((y, m, d, H, M, S), s11)
      }"

text \<open>
  The two formats of the source, \<open>"%Y-%m-%dT%H:%M:%S.%fZ"\<close> and \<open>"%Y-%m-%dT%H:%M:%SZ"\<close>.
  The final Z is a literal of the format, so the result is naive.
\<close>

fun pd_strptime :: "ts_format \<Rightarrow> string \<Rightarrow> datetime option" where
  "pd_strptime With_fraction s =
     do {
        ((y, m, d, H, M, S), s1) \<leftarrow> date_and_time s;
        s2 \<leftarrow> lit CHR ''.'' s1;
        (ns, s3) \<leftarrow> re_f s2;
        s4 \<leftarrow> lit CHR ''Z'' s3;
        t \<leftarrow> (if s4 = [] then mk_datetime y m d H M S ns else None);
        if in_bounds t then Some t else None
      }"
| "pd_strptime Without_fraction s =
     do {
        ((y, m, d, H, M, S), s1) \<leftarrow> date_and_time s;
        s2 \<leftarrow> lit CHR ''Z'' s1;
        t \<leftarrow> (if s2 = [] then mk_datetime y m d H M S 0 else None);
        if in_bounds t then Some t else None
      }"

text \<open>
  \<open>pd.to_datetime(column, format=..., errors='coerce')\<close> on a column of cells: what does
  not parse becomes NaT (\<open>None\<close>).
\<close>

fun to_datetime_coerce :: "ts_format \<Rightarrow> cell \<Rightarrow> datetime option" where
  "to_datetime_coerce fmt (CStr s) = pd_strptime fmt s"
| "to_datetime_coerce fmt CNaN = None"
| "to_datetime_coerce fmt (CTime t) = (if in_bounds t then Some t else None)"

text \<open>
  \<open>pd.to_datetime\<close> on a column that is already a timestamp column returns it as it is: there
  is no string left to parse, and the format is not consulted.
\<close>

definition to_datetime_dt64 :: "ts_format \<Rightarrow> datetime option \<Rightarrow> datetime option" where
  "to_datetime_dt64 fmt v = v"

text \<open>
  Lines 107-120 (and 123-135) of \<open>rename_courbes.py\<close>: the column is overwritten by its
  conversion under the first format; the second conversion is then applied to the rows of
  the overwritten column that are NaT.
\<close>

definition convert_column :: "cell list \<Rightarrow> datetime option list" where
  "convert_column col =
     (let col1 = map (to_datetime_coerce With_fraction) col;
          mask_nan = map (\<lambda>v. v = None) col1
      in if list_ex (\<lambda>b. b) mask_nan
         then map (\<lambda>(m, v). if m then to_datetime_dt64 Without_fraction v else v) (zip mask_nan col1)
         else col1)"

record user =
  ID :: string
  date_enr :: "datetime option"
  date_maj :: "datetime option"

definition dropna :: "user list \<Rightarrow> user list" where
  "dropna df = filter (\<lambda>u. date_enr u \<noteq> None \<and> date_maj u \<noteq> None) df"

definition load_registry :: "sheet \<Rightarrow> user list" where
  "load_registry sh =
     (let enr = convert_column (map raw_enr (rows sh));
          maj = convert_column (map raw_maj (rows sh));
          df = map (\<lambda>(r, e, m). \<lparr>ID = raw_ID r, date_enr = e, date_maj = m\<rparr>) (zip (rows sh) (zip enr maj))
      in dropna df)"

text \<open>
  The copy under \<open>scripts/\<close> converts with the first format only and without
  \<open>errors='coerce'\<close>: a string that does not parse raises, and the caller exits.
\<close>

fun to_datetime_raise :: "ts_format \<Rightarrow> cell list \<Rightarrow> datetime option list option" where
  "to_datetime_raise fmt [] = Some []"
| "to_datetime_raise fmt (CStr s # cs) =
     (case pd_strptime fmt s of None \<Rightarrow> None
      | Some t \<Rightarrow> map_option (\<lambda>r. Some t # r) (to_datetime_raise fmt cs))"
| "to_datetime_raise fmt (c # cs) =
     map_option (\<lambda>r. to_datetime_coerce fmt c # r) (to_datetime_raise fmt cs)"

definition scripts_load_registry :: "sheet \<Rightarrow> user list option" where
  "scripts_load_registry sh =
     (case to_datetime_raise With_fraction (map raw_enr (rows sh)) of None \<Rightarrow> None
      | Some enr \<Rightarrow>
     (case to_datetime_raise With_fraction (map raw_maj (rows sh)) of None \<Rightarrow> None
      | Some maj \<Rightarrow>
          Some (map (\<lambda>(r, e, m). \<lparr>ID = raw_ID r, date_enr = e, date_maj = m\<rparr>)
                  (zip (rows sh) (zip enr maj)))))"

section \<open>The matcher\<close>

text \<open>A comparison with NaT is false.\<close>

fun ts_le :: "datetime option \<Rightarrow> datetime option \<Rightarrow> bool" where
  "ts_le (Some a) (Some b) = dt_le a b"
| "ts_le _ _ = False"

definition candidats :: "user list \<Rightarrow> datetime \<Rightarrow> user list" where
  "candidats df dossier_dt =
     filter (\<lambda>u. ts_le (date_enr u) (Some dossier_dt) \<and> ts_le (Some dossier_dt) (date_maj u)) df"

section \<open>The file system\<close>

text \<open>
  A directory is the list of its entries in the order the operating system lists them;
  a name is one path component. A file carries a tag for its content, so that one can tell
  which file is under which name. A symbolic link carries what it resolves to, if anything,
  as its own copy: no two entries share a target.

  The calls that follow symbolic links (\<open>os.path.exists\<close>, \<open>os.path.isfile\<close>,
  \<open>os.path.isdir\<close>) read an entry through \<open>follow\<close>; \<open>os.rename\<close> acts on the entry
  itself.
\<close>

datatype content = Bytes nat | Workbook "(string \<times> sheet) list"

datatype node = File content | Dir "(string \<times> node) list" | Symlink "node option"

type_synonym dir = "(string \<times> node) list"

fun follow :: "node \<Rightarrow> node option" where
  "follow (Symlink None) = None"
| "follow (Symlink (Some n)) = follow n"
| "follow (File c) = Some (File c)"
| "follow (Dir d) = Some (Dir d)"

text \<open>\<open>os.stat\<close> of a name of the directory; \<open>None\<close> when it fails.\<close>

definition os_stat :: "dir \<Rightarrow> string \<Rightarrow> node option" where
  "os_stat es name = Option.bind (map_of es name) follow"

definition os_listdir :: "dir \<Rightarrow> string list" where
  "os_listdir es = map fst es"

definition os_path_exists :: "dir \<Rightarrow> string \<Rightarrow> bool" where
  "os_path_exists es name \<longleftrightarrow> os_stat es name \<noteq> None"

definition os_path_isfile :: "dir \<Rightarrow> string \<Rightarrow> bool" where
  "os_path_isfile es name \<longleftrightarrow> (case os_stat es name of Some (File c) \<Rightarrow> True | _ \<Rightarrow> False)"

definition os_path_isdir :: "dir \<Rightarrow> string \<Rightarrow> bool" where
  "os_path_isdir es name \<longleftrightarrow> (case os_stat es name of Some (Dir d) \<Rightarrow> True | _ \<Rightarrow> False)"

definition move_entry :: "dir \<Rightarrow> string \<Rightarrow> string \<Rightarrow> dir" where
  "move_entry es old new =
     map (\<lambda>(k, v). if k = old then (new, v) else (k, v)) (filter (\<lambda>(k, v). k \<noteq> new) es)"

fun is_directory :: "node \<Rightarrow> bool" where
  "is_directory (Dir d) = True"
| "is_directory n = False"

text \<open>
  \<open>os.rename(old, new)\<close> on two names of one directory. The result \<open>None\<close> is the OSError
  it raises. As the system call does, it replaces an entry that bears the new name when
  both entries are not directories (a file, or a symbolic link whatever it resolves to), or
  when a directory is renamed onto an empty directory.
\<close>

definition os_rename :: "dir \<Rightarrow> string \<Rightarrow> string \<Rightarrow> dir option" where
  "os_rename es old new =
     (case map_of es old of
        None \<Rightarrow> None
      | Some src \<Rightarrow>
          if old = new then Some es
          else (case map_of es new of
                  None \<Rightarrow> Some (move_entry es old new)
                | Some tgt \<Rightarrow>
                    if is_directory src
                    then (case tgt of
                            Dir d \<Rightarrow> if d = [] then Some (move_entry es old new) else None
                          | _ \<Rightarrow> None)
                    else if is_directory tgt then None
                    else Some (move_entry es old new)))"


section \<open>The renaming loop\<close>

record counters =
  total_dossiers :: nat
  total_png_renommes :: nat
  total_non_trouves :: nat
  total_conflits :: nat

definition new_fname :: "string \<Rightarrow> nat \<Rightarrow> string" where
  "new_fname user_id idx = user_id @ ''_courbe'' @ str_nat idx @ ''.png''"

definition png_files :: "dir \<Rightarrow> string list" where
  "png_files es = filter (\<lambda>f. os_path_isfile es f \<and> endswith (lower f) ''.png'') (os_listdir es)"

text \<open>
  Lines 231-250 of \<open>rename_courbes.py\<close>: the loop over \<open>enumerate(png_files, start=1)\<close>.
  The state is the folder and the counters.
\<close>

fun rename_files :: "string \<Rightarrow> nat \<Rightarrow> string list \<Rightarrow> dir \<times> counters \<Rightarrow> dir \<times> counters" where
  "rename_files user_id idx [] st = st"
| "rename_files user_id idx (old_fname # rest) (es, c) =
     (let new_fname = new_fname user_id idx in
      if os_path_exists es new_fname \<and> old_fname \<noteq> new_fname
      then rename_files user_id (Suc idx) rest (es, c)
      else if old_fname = new_fname
      then rename_files user_id (Suc idx) rest (es, c)
      else (case os_rename es old_fname new_fname of
              Some es' \<Rightarrow>
                rename_files user_id (Suc idx) rest
                  (es', c\<lparr>total_png_renommes := total_png_renommes c + 1\<rparr>)
            | None \<Rightarrow> rename_files user_id (Suc idx) rest (es, c)))"

text \<open>Lines 190-205 of \<open>scripts/rename_courbes.py\<close>: the guard is \<open>os.path.exists\<close> alone.\<close>

fun scripts_rename_files :: "string \<Rightarrow> nat \<Rightarrow> string list \<Rightarrow> dir \<times> counters \<Rightarrow> dir \<times> counters" where
  "scripts_rename_files user_id idx [] st = st"
| "scripts_rename_files user_id idx (old_fname # rest) (es, c) =
     (let new_fname = new_fname user_id idx in
      if os_path_exists es new_fname
      then scripts_rename_files user_id (Suc idx) rest (es, c)
      else (case os_rename es old_fname new_fname of
              Some es' \<Rightarrow>
                scripts_rename_files user_id (Suc idx) rest
                  (es', c\<lparr>total_png_renommes := total_png_renommes c + 1\<rparr>)
            | None \<Rightarrow> scripts_rename_files user_id (Suc idx) rest (es, c)))"

section \<open>The loop over the capture root\<close>

text \<open>
  The capture root with the folder reached at one entry replaced by its new state: the
  directory itself, or the directory a symbolic link resolves to.
\<close>

fun set_content :: "node \<Rightarrow> dir \<Rightarrow> node" where
  "set_content (Dir d) folder = Dir folder"
| "set_content (Symlink (Some n)) folder = Symlink (Some (set_content n folder))"
| "set_content n folder = n"

fun put_dir :: "string \<Rightarrow> dir \<Rightarrow> dir \<Rightarrow> dir" where
  "put_dir entry folder [] = []"
| "put_dir entry folder ((k, v) # root) =
     (if k = entry then (k, set_content v folder) # root else (k, v) # put_dir entry folder root)"

text \<open>
  The body of \<open>for entry in dossiers\<close> (lines 172-250), with the loop over the files as a
  parameter: the two copies of the script differ there only.
\<close>

definition loop_body ::
  "(string \<Rightarrow> nat \<Rightarrow> string list \<Rightarrow> dir \<times> counters \<Rightarrow> dir \<times> counters) \<Rightarrow>
   user list \<Rightarrow> string \<Rightarrow> dir \<times> counters \<Rightarrow> dir \<times> counters" where
  "loop_body renamer df entry st =
     (case st of (root, c) \<Rightarrow>
      (case os_stat root entry of
         Some (Dir folder) \<Rightarrow>
           if \<not> startswith entry ''taxan_'' then st
           else
             let c1 = c\<lparr>total_dossiers := total_dossiers c + 1\<rparr> in
             (case parse_datetime_from_foldername entry of
                None \<Rightarrow> (root, c1\<lparr>total_non_trouves := total_non_trouves c1 + 1\<rparr>)
              | Some dossier_dt \<Rightarrow>
                  (case candidats df dossier_dt of
                     [] \<Rightarrow> (root, c1\<lparr>total_non_trouves := total_non_trouves c1 + 1\<rparr>)
                   | u # others \<Rightarrow>
                       let c2 = (if others \<noteq> [] then c1\<lparr>total_conflits := total_conflits c1 + 1\<rparr> else c1);
                           user_id = ID u;
                           pngs = png_files folder
                       in if pngs = [] then (root, c2)
                          else (case renamer user_id 1 (sort pngs) (folder, c2) of
                                  (folder', c3) \<Rightarrow> (put_dir entry folder' root, c3))))
       | _ \<Rightarrow> st))"

fun for_dossiers ::
  "(string \<Rightarrow> nat \<Rightarrow> string list \<Rightarrow> dir \<times> counters \<Rightarrow> dir \<times> counters) \<Rightarrow>
   user list \<Rightarrow> string list \<Rightarrow> dir \<times> counters \<Rightarrow> dir \<times> counters" where
  "for_dossiers renamer df [] st = st"
| "for_dossiers renamer df (entry # rest) st = for_dossiers renamer df rest (loop_body renamer df entry st)"

definition no_counts :: counters where
  "no_counts = \<lparr>total_dossiers = 0, total_png_renommes = 0, total_non_trouves = 0, total_conflits = 0\<rparr>"

definition process_root ::
  "(string \<Rightarrow> nat \<Rightarrow> string list \<Rightarrow> dir \<times> counters \<Rightarrow> dir \<times> counters) \<Rightarrow>
   user list \<Rightarrow> dir \<Rightarrow> dir \<times> counters" where
  "process_root renamer df root = for_dossiers renamer df (sort (os_listdir root)) (root, no_counts)"

section \<open>The two programs\<close>

text \<open>
  The file system seen from the working directory: what is at a path given on the command
  line, read through \<open>follow\<close> as the calls of the source do. The namespace is what the
  argument parser returns: the attributes \<open>excel\<close> and \<open>taxan_dir\<close>, and no other.
  Reading an attribute that is not there raises AttributeError.
\<close>

type_synonym filesystem = "string \<Rightarrow> node option"

type_synonym namespace = "(string \<times> string) list"

definition parse_args :: "string \<Rightarrow> string \<Rightarrow> namespace" where
  "parse_args excel taxan_dir = [(''excel'', excel), (''taxan_dir'', taxan_dir)]"

definition getattr :: "namespace \<Rightarrow> string \<Rightarrow> string option" where
  "getattr args name = map_of args name"

datatype outcome = Completed counters | SysExit nat | AttributeError

text \<open>The exit status of the process: 0 at the end of the script, 1 on a traceback.\<close>

fun exit_status :: "outcome \<Rightarrow> nat" where
  "exit_status (Completed c) = 0"
| "exit_status (SysExit n) = n"
| "exit_status AttributeError = 1"

definition isfile :: "filesystem \<Rightarrow> string \<Rightarrow> bool" where
  "isfile fs path \<longleftrightarrow> (case Option.bind (fs path) follow of Some (File c) \<Rightarrow> True | _ \<Rightarrow> False)"

definition isdir :: "filesystem \<Rightarrow> string \<Rightarrow> bool" where
  "isdir fs path \<longleftrightarrow> (case Option.bind (fs path) follow of Some (Dir d) \<Rightarrow> True | _ \<Rightarrow> False)"

definition exists_path :: "filesystem \<Rightarrow> string \<Rightarrow> bool" where
  "exists_path fs path \<longleftrightarrow> Option.bind (fs path) follow \<noteq> None"

text \<open>\<open>pd.read_excel(path, sheet_name=...)\<close>; \<open>None\<close> is any exception it raises.\<close>

definition read_excel :: "filesystem \<Rightarrow> string \<Rightarrow> string \<Rightarrow> sheet option" where
  "read_excel fs path sheet_name =
     (case Option.bind (fs path) follow of
        Some (File (Workbook sheets)) \<Rightarrow> map_of sheets sheet_name
      | _ \<Rightarrow> None)"

text \<open>Without a sheet name the first sheet is read.\<close>

definition read_excel_first :: "filesystem \<Rightarrow> string \<Rightarrow> sheet option" where
  "read_excel_first fs path =
     (case Option.bind (fs path) follow of
        Some (File (Workbook ((name, sh) # sheets))) \<Rightarrow> Some sh
      | _ \<Rightarrow> None)"

definition listing :: "filesystem \<Rightarrow> string \<Rightarrow> dir" where
  "listing fs path = (case Option.bind (fs path) follow of Some (Dir es) \<Rightarrow> es | _ \<Rightarrow> [])"

text \<open>
  \<open>main\<close> of \<open>rename_courbes.py\<close>, on the two values of the command line. After the
  loop the path of the capture root holds the directory it resolves to, as the renames
  have left it.
\<close>

definition main :: "string \<Rightarrow> string \<Rightarrow> filesystem \<Rightarrow> outcome \<times> filesystem" where
  "main excel taxan_dir fs =
     (let args = parse_args excel taxan_dir in
      (case getattr args ''excel'' of None \<Rightarrow> (AttributeError, fs) | Some excel_path \<Rightarrow>
      (case getattr args ''taxan_dir'' of None \<Rightarrow> (AttributeError, fs) | Some taxan_root \<Rightarrow>
       if \<not> isfile fs excel_path then (SysExit 1, fs)
       else if \<not> isdir fs taxan_root then (SysExit 1, fs)
       else (case read_excel fs excel_path ''Visiteurs ARESIA'' of None \<Rightarrow> (SysExit 1, fs) | Some sh \<Rightarrow>
         if \<not> set required_cols \<subseteq> set (columns sh) then (SysExit 1, fs)
         else
           let df = load_registry sh in
           if \<not> exists_path fs taxan_root then (SysExit 1, fs)
           else (case process_root rename_files df (listing fs taxan_root) of
                   (root', c) \<Rightarrow> (Completed c, fs(taxan_root \<mapsto> Dir root')))))))"

text \<open>
  \<open>main\<close> of \<open>scripts/rename_courbes.py\<close>. Line 73 evaluates \<open>args.tan_dir\<close> (the condition
  of the conditional expression is \<open>False\<close>), line 75 and line 80 \<open>args.taxon_dir\<close>.
\<close>

definition scripts_main :: "string \<Rightarrow> string \<Rightarrow> filesystem \<Rightarrow> outcome \<times> filesystem" where
  "scripts_main excel taxan_dir fs =
     (let args = parse_args excel taxan_dir in
      (case getattr args ''excel'' of None \<Rightarrow> (AttributeError, fs) | Some excel_path0 \<Rightarrow>
      (case getattr args ''tan_dir'' of None \<Rightarrow> (AttributeError, fs) | Some taxan_root0 \<Rightarrow>
      (case getattr args ''taxon_dir'' of None \<Rightarrow> (AttributeError, fs) | Some taxan_root1 \<Rightarrow>
      (case getattr args ''excel'' of None \<Rightarrow> (AttributeError, fs) | Some excel_path \<Rightarrow>
      (case getattr args ''taxon_dir'' of None \<Rightarrow> (AttributeError, fs) | Some taxan_root \<Rightarrow>
       if \<not> isfile fs excel_path then (SysExit 1, fs)
       else if \<not> isdir fs taxan_root then (SysExit 1, fs)
       else (case read_excel_first fs excel_path of None \<Rightarrow> (SysExit 1, fs) | Some sh \<Rightarrow>
         if \<not> set required_cols \<subseteq> set (columns sh) then (SysExit 1, fs)
         else (case scripts_load_registry sh of None \<Rightarrow> (SysExit 1, fs) | Some df \<Rightarrow>
           (case process_root scripts_rename_files df (listing fs taxan_root) of
              (root', c) \<Rightarrow> (Completed c, fs(taxan_root \<mapsto> Dir root')))))))))))"

section \<open>Predicates used in the statements\<close>

text \<open>A record covers a timestamp when its interval contains it, bounds included.\<close>

definition covers :: "user \<Rightarrow> datetime \<Rightarrow> bool" where
  "covers u t \<longleftrightarrow> (\<exists>a b. date_enr u = Some a \<and> date_maj u = Some b \<and> dt_le a t \<and> dt_le t b)"

text \<open>The fatal preconditions of \<open>main\<close>: lines 76-102 of \<open>rename_courbes.py\<close>.\<close>

definition fatal_precondition :: "filesystem \<Rightarrow> string \<Rightarrow> string \<Rightarrow> bool" where
  "fatal_precondition fs excel_path taxan_root \<longleftrightarrow>
     \<not> isfile fs excel_path \<or> \<not> isdir fs taxan_root \<or>
     (case read_excel fs excel_path ''Visiteurs ARESIA'' of None \<Rightarrow> True
      | Some sh \<Rightarrow> \<not> set required_cols \<subseteq> set (columns sh))"


text \<open>A cell that neither of the two formats parses.\<close>

definition unparsable :: "cell \<Rightarrow> bool" where
  "unparsable c \<longleftrightarrow> to_datetime_coerce With_fraction c = None \<and> to_datetime_coerce Without_fraction c = None"











section \<open>Example inputs\<close>

definition ex_dt :: "nat \<Rightarrow> nat \<Rightarrow> nat \<Rightarrow> datetime" where
  "ex_dt H M S = \<lparr>year = 2025, month = 6, day = 3, hour = H, minute = M, second = S, nanosecond = 0\<rparr>"

definition ex_user :: "string \<Rightarrow> nat \<Rightarrow> nat \<Rightarrow> user" where
  "ex_user i from_hour to_hour =
     \<lparr>ID = i, date_enr = Some (ex_dt from_hour 0 0), date_maj = Some (ex_dt to_hour 0 0)\<rparr>"

definition ex_entry :: string where
  "ex_entry = ''taxan_2025-06-03-14-14-57''"

definition ex_folder :: dir where
  "ex_folder = [(''b.png'', File (Bytes 1)), (''a.png'', File (Bytes 2))]"

definition ex_sheet :: "string \<Rightarrow> string \<Rightarrow> sheet" where
  "ex_sheet enr maj =
     \<lparr>columns = required_cols, rows = [\<lparr>raw_ID = ''42'', raw_enr = CStr enr, raw_maj = CStr maj\<rparr>]\<rparr>"

definition ex_fs :: "sheet \<Rightarrow> dir \<Rightarrow> filesystem" where
  "ex_fs sh root =
     (\<lambda>p. None)(''visiteurs-aresia.xlsx'' \<mapsto> File (Workbook [(''Visiteurs ARESIA'', sh)]),
                ''taxan'' \<mapsto> Dir root)"



section \<open>Evaluation\<close>

lemmas scan_defs = parse_datetime_from_foldername_def strptime_folder_def startswith_def re_Y_def
  re_m_def re_d_def re_H_def re_M_def re_S_def re_f_def two_def one_def orelse_def lit_def
  between_def is_digit_def digit_val_def int_of_digits_def mk_datetime_def days_in_month_def
  is_leap_def lower_char_def date_and_time_def in_bounds_def dt_key_def

lemmas reg_defs = load_registry_def convert_column_def dropna_def to_datetime_dt64_def
  candidats_def dt_le_def

lemmas fs_defs = os_listdir_def os_stat_def os_path_exists_def os_path_isfile_def os_path_isdir_def
  move_entry_def os_rename_def new_fname_def png_files_def endswith_def lower_def
  loop_body_def process_root_def no_counts_def

lemmas main_defs = main_def parse_args_def getattr_def isfile_def isdir_def exists_path_def
  read_excel_def listing_def required_cols_def col_ID_def col_enr_def col_maj_def

lemmas ex_defs = ex_dt_def ex_user_def ex_entry_def ex_folder_def ex_sheet_def ex_fs_def

lemma str_nat_small: "str_nat (Suc 0) = ''1''" "str_nat (Suc (Suc 0)) = ''2''"
  by (simp_all add: str_nat.simps digit_char_def)

lemma ex_entry_parses: "parse_datetime_from_foldername ex_entry = Some (ex_dt 14 14 57)"
  by (simp add: ex_defs scan_defs)

section \<open>The matcher\<close>

lemma ts_le_covers: "(ts_le (date_enr u) (Some t) \<and> ts_le (Some t) (date_maj u)) = covers u t"
  by (cases "date_enr u"; cases "date_maj u") (auto simp: covers_def)

lemma candidats_filter: "candidats df t = filter (\<lambda>u. covers u t) df"
  by (simp add: candidats_def ts_le_covers)

lemma dt_le_trans: "dt_le a t \<Longrightarrow> dt_le t b \<Longrightarrow> dt_le a b"
  unfolding dt_le_def by (rule order_trans)

text \<open>
  C3. For every timestamp and every registry, the candidates are exactly the records whose
  interval contains the timestamp, in the registry's order; a record whose start is after
  its end is never among them.
\<close>

theorem matcher_exact_subset:
  "candidats df t = filter (\<lambda>u. covers u t) df \<and>
   (\<forall>u a b. date_enr u = Some a \<and> date_maj u = Some b \<and> \<not> dt_le a b \<longrightarrow> u \<notin> set (candidats df t))"
  by (auto simp: candidats_filter covers_def dest: dt_le_trans)

theorem matcher_exact_subset_witness:
  "\<not> dt_le (ex_dt 15 0 0) (ex_dt 14 0 0) \<and>
   ex_user ''9'' 15 14 \<notin> set (candidats [ex_user ''9'' 15 14, ex_user ''42'' 14 15] (ex_dt 14 14 57)) \<and>
   candidats [ex_user ''9'' 15 14, ex_user ''42'' 14 15] (ex_dt 14 14 57) = [ex_user ''42'' 14 15]"
  using matcher_exact_subset [of "[ex_user ''9'' 15 14, ex_user ''42'' 14 15]" "ex_dt 14 14 57"]
  by (simp add: covers_def ex_defs dt_le_def dt_key_def)

section \<open>The copy under scripts\<close>

text \<open>
  C10. On every command line the parser accepts, the copy under \<open>scripts/\<close> stops with an
  AttributeError on \<open>args.tan_dir\<close> (and \<open>args.taxon_dir\<close> is not an attribute either), the
  file system untouched; \<open>rename_courbes.py\<close> never ends so, hence the two differ on every
  input.
\<close>

theorem scripts_copy_crashes:
  "scripts_main excel taxan_dir fs = (AttributeError, fs) \<and>
   getattr (parse_args excel taxan_dir) ''tan_dir'' = None \<and>
   getattr (parse_args excel taxan_dir) ''taxon_dir'' = None \<and>
   fst (main excel taxan_dir fs) \<noteq> AttributeError"
  by (simp add: scripts_main_def main_def parse_args_def getattr_def Let_def split: option.splits prod.splits)

section \<open>The exit status\<close>

lemma isdir_exists: "isdir fs p \<Longrightarrow> exists_path fs p"
  by (auto simp: isdir_def exists_path_def split: option.splits)

text \<open>
  C9. The exit status is 1 when a fatal precondition fails (no registry file, no capture
  root, a registry that cannot be read, a required column absent) and 0 otherwise: the run
  then completes, whatever its counters.
\<close>

theorem exit_status_fatal:
  "exit_status (fst (main excel taxan_dir fs)) = (if fatal_precondition fs excel taxan_dir then 1 else 0) \<and>
   (\<not> fatal_precondition fs excel taxan_dir \<longrightarrow> (\<exists>c. fst (main excel taxan_dir fs) = Completed c))"
  by (auto simp: main_def parse_args_def getattr_def Let_def fatal_precondition_def isdir_exists
      split: option.splits prod.splits)

theorem exit_status_fatal_witness:
  "\<not> fatal_precondition (ex_fs (ex_sheet ''x'' ''y'') [(''taxan_bad'', Dir [])]) ''visiteurs-aresia.xlsx'' ''taxan'' \<and>
   fst (main ''visiteurs-aresia.xlsx'' ''taxan'' (ex_fs (ex_sheet ''x'' ''y'') [(''taxan_bad'', Dir [])])) =
     Completed \<lparr>total_dossiers = 1, total_png_renommes = 0, total_non_trouves = 1, total_conflits = 0\<rparr> \<and>
   exit_status (fst (main ''visiteurs-aresia.xlsx'' ''taxan'' (ex_fs (ex_sheet ''x'' ''y'') [(''taxan_bad'', Dir [])]))) = 0 \<and>
   fatal_precondition (\<lambda>p. None) ''visiteurs-aresia.xlsx'' ''taxan'' \<and>
   exit_status (fst (main ''visiteurs-aresia.xlsx'' ''taxan'' (\<lambda>p. None))) = 1"
  using exit_status_fatal [of "''visiteurs-aresia.xlsx''" "''taxan''" "ex_fs (ex_sheet ''x'' ''y'') [(''taxan_bad'', Dir [])]"]
    exit_status_fatal [of "''visiteurs-aresia.xlsx''" "''taxan''" "\<lambda>p. None"]
  by (simp add: fatal_precondition_def main_defs ex_defs fs_defs scan_defs)

section \<open>The renamer\<close>
















text \<open>
  An entry that \<open>os.path.exists\<close> does not report is outside this property: a symbolic
  link whose target is missing, bearing the target name, is replaced by the renamed file.
\<close>

lemma dangling_link_replaced:
  "sort (png_files [(''a.png'', File (Bytes 1)), (''42_courbe1.png'', Symlink None)]) = [''a.png''] \<and>
   \<not> os_path_exists [(''a.png'', File (Bytes 1)), (''42_courbe1.png'', Symlink None)] (new_fname ''42'' 1) \<and>
   rename_files ''42'' 1 [''a.png'']
       ([(''a.png'', File (Bytes 1)), (''42_courbe1.png'', Symlink None)], no_counts) =
     ([(''42_courbe1.png'', File (Bytes 1))],
      \<lparr>total_dossiers = 0, total_png_renommes = 1, total_non_trouves = 0, total_conflits = 0\<rparr>)"
  by (simp add: fs_defs lower_char_def str_nat_small)

















section \<open>The loop over the capture root\<close>

lemma os_stat_Dir: "map_of root entry = Some (Dir folder) \<Longrightarrow> os_stat root entry = Some (Dir folder)"
  by (simp add: os_stat_def)

lemma rename_files_counters:
  "rename_files uid idx olds (es, c) = (es', c') \<Longrightarrow>
   total_dossiers c' = total_dossiers c \<and> total_non_trouves c' = total_non_trouves c \<and>
   total_conflits c' = total_conflits c"
proof (induction olds arbitrary: idx es c)
  case Nil
  then show ?case by simp
next
  case (Cons old rest)
  show ?case
  proof (cases "os_path_exists es (new_fname uid idx) \<and> old \<noteq> new_fname uid idx")
    case True
    with Cons.prems have "rename_files uid (Suc idx) rest (es, c) = (es', c')" by simp
    then show ?thesis by (rule Cons.IH)
  next
    case False
    note guard = this
    show ?thesis
    proof (cases "old = new_fname uid idx")
      case True
      with Cons.prems have "rename_files uid (Suc idx) rest (es, c) = (es', c')" by simp
      then show ?thesis by (rule Cons.IH)
    next
      case False
      show ?thesis
      proof (cases "os_rename es old (new_fname uid idx)")
        case None
        with guard False Cons.prems have "rename_files uid (Suc idx) rest (es, c) = (es', c')" by simp
        then show ?thesis by (rule Cons.IH)
      next
        case (Some es1)
        with guard False Cons.prems
        have "rename_files uid (Suc idx) rest (es1, c\<lparr>total_png_renommes := total_png_renommes c + 1\<rparr>) = (es', c')"
          by simp
        from Cons.IH [OF this] show ?thesis by simp
      qed
    qed
  qed
qed

text \<open>
  C5. When more than one record covers the timestamp of a folder, the record used is the
  first of the registry, in load order, that covers it; the conflict counter goes up by one
  for the folder, and the loop goes on with the next entry.
\<close>

theorem conflict_first_in_load_order:
  assumes "map_of root entry = Some (Dir folder)"
    and "startswith entry ''taxan_''"
    and "parse_datetime_from_foldername entry = Some t"
    and "1 < length (candidats df t)"
  shows "\<exists>pre u post. df = pre @ u # post \<and> covers u t \<and> (\<forall>p\<in>set pre. \<not> covers p t) \<and>
     (let c2 = c\<lparr>total_dossiers := total_dossiers c + 1, total_conflits := total_conflits c + 1\<rparr>;
          r = rename_files (ID u) 1 (sort (png_files folder)) (folder, c2)
      in loop_body rename_files df entry (root, c) =
           (if png_files folder = [] then (root, c2) else (put_dir entry (fst r) root, snd r))) \<and>
     total_conflits (snd (loop_body rename_files df entry (root, c))) = total_conflits c + 1 \<and>
     for_dossiers rename_files df (entry # rest) (root, c) =
       for_dossiers rename_files df rest (loop_body rename_files df entry (root, c))"
proof -
  from assms(4) obtain u others where cand: "candidats df t = u # others" and others: "others \<noteq> []"
    by (cases "candidats df t"; cases "tl (candidats df t)") auto
  from cand have "filter (\<lambda>u. covers u t) df = u # others" by (simp add: candidats_filter)
  then obtain pre post where split: "df = pre @ u # post" "\<forall>p\<in>set pre. \<not> covers p t" "covers u t"
    by (auto simp: filter_eq_Cons_iff)
  define c2 where "c2 = c\<lparr>total_dossiers := total_dossiers c + 1, total_conflits := total_conflits c + 1\<rparr>"
  define r where "r = rename_files (ID u) 1 (sort (png_files folder)) (folder, c2)"
  have body: "loop_body rename_files df entry (root, c) =
           (if png_files folder = [] then (root, c2) else (put_dir entry (fst r) root, snd r))"
    using assms(2,3) cand others
    by (simp add: loop_body_def os_stat_Dir [OF assms(1)] Let_def c2_def r_def split: prod.splits)
  have "total_conflits (snd r) = total_conflits c2"
    using rename_files_counters [of "ID u" 1 "sort (png_files folder)" folder c2 "fst r" "snd r"]
    by (simp add: r_def)
  then have conf: "total_conflits (snd (loop_body rename_files df entry (root, c))) = total_conflits c + 1"
    by (simp add: body c2_def)
  show ?thesis
    using split body conf unfolding Let_def c2_def r_def
    by (intro exI [of _ pre] exI [of _ u] exI [of _ post]) simp
qed

theorem conflict_first_in_load_order_witness:
  "map_of [(ex_entry, Dir ex_folder)] ex_entry = Some (Dir ex_folder) \<and>
   startswith ex_entry ''taxan_'' \<and>
   parse_datetime_from_foldername ex_entry = Some (ex_dt 14 14 57) \<and>
   1 < length (candidats [ex_user ''7'' 13 16, ex_user ''42'' 14 15] (ex_dt 14 14 57)) \<and>
   total_conflits (snd (loop_body rename_files [ex_user ''7'' 13 16, ex_user ''42'' 14 15] ex_entry
      ([(ex_entry, Dir ex_folder)], no_counts))) = 1 \<and>
   fst (loop_body rename_files [ex_user ''7'' 13 16, ex_user ''42'' 14 15] ex_entry
      ([(ex_entry, Dir ex_folder)], no_counts)) =
     [(ex_entry, Dir [(''7_courbe2.png'', File (Bytes 1)), (''7_courbe1.png'', File (Bytes 2))])]"
proof -
  have h1: "map_of [(ex_entry, Dir ex_folder)] ex_entry = Some (Dir ex_folder)" by simp
  have h2: "startswith ex_entry ''taxan_''" by (simp add: startswith_def ex_entry_def)
  have h3: "parse_datetime_from_foldername ex_entry = Some (ex_dt 14 14 57)" by (rule ex_entry_parses)
  have cand: "candidats [ex_user ''7'' 13 16, ex_user ''42'' 14 15] (ex_dt 14 14 57) =
      [ex_user ''7'' 13 16, ex_user ''42'' 14 15]"
    by (simp add: candidats_def ex_dt_def ex_user_def dt_le_def dt_key_def)
  have h4: "1 < length (candidats [ex_user ''7'' 13 16, ex_user ''42'' 14 15] (ex_dt 14 14 57))"
    by (simp add: cand)
  have conf: "total_conflits (snd (loop_body rename_files [ex_user ''7'' 13 16, ex_user ''42'' 14 15] ex_entry
      ([(ex_entry, Dir ex_folder)], no_counts))) = 1"
    using conflict_first_in_load_order [OF h1 h2 h3 h4, of no_counts "[]"]
    by (elim exE conjE) (simp add: no_counts_def)
  have res: "fst (loop_body rename_files [ex_user ''7'' 13 16, ex_user ''42'' 14 15] ex_entry
      ([(ex_entry, Dir ex_folder)], no_counts)) =
     [(ex_entry, Dir [(''7_courbe2.png'', File (Bytes 1)), (''7_courbe1.png'', File (Bytes 2))])]"
    by (simp add: loop_body_def os_stat_def h2 h3 cand Let_def)
       (simp add: ex_folder_def ex_user_def fs_defs lower_char_def str_nat_small)
  from h1 h2 h3 h4 conf res show ?thesis by blast
qed

text \<open>
  C8, as the code has it. A subdirectory whose name lacks the prefix \<open>taxan_\<close> is passed
  over and no counter moves; one that has the prefix and a timestamp that does not parse is
  counted as a folder and as unmatched. In both cases the loop goes on with the next entry.
\<close>

theorem invalid_folder_name:
  assumes "map_of root entry = Some (Dir folder)"
  shows "(\<not> startswith entry ''taxan_'' \<longrightarrow> loop_body rename_files df entry (root, c) = (root, c)) \<and>
         (startswith entry ''taxan_'' \<and> parse_datetime_from_foldername entry = None \<longrightarrow>
            loop_body rename_files df entry (root, c) =
              (root, c\<lparr>total_dossiers := total_dossiers c + 1, total_non_trouves := total_non_trouves c + 1\<rparr>)) \<and>
         for_dossiers rename_files df (entry # rest) (root, c) =
           for_dossiers rename_files df rest (loop_body rename_files df entry (root, c))"
  by (simp add: loop_body_def os_stat_Dir [OF assms] Let_def)

theorem invalid_folder_name_witness:
  "map_of [(''archive'', Dir []), (''taxan_bad'', Dir [])] ''archive'' = Some (Dir []) \<and>
   \<not> startswith ''archive'' ''taxan_'' \<and>
   loop_body rename_files [] ''archive'' ([(''archive'', Dir []), (''taxan_bad'', Dir [])], no_counts) =
     ([(''archive'', Dir []), (''taxan_bad'', Dir [])], no_counts) \<and>
   startswith ''taxan_bad'' ''taxan_'' \<and> parse_datetime_from_foldername ''taxan_bad'' = None \<and>
   loop_body rename_files [] ''taxan_bad'' ([(''archive'', Dir []), (''taxan_bad'', Dir [])], no_counts) =
     ([(''archive'', Dir []), (''taxan_bad'', Dir [])],
      \<lparr>total_dossiers = 1, total_png_renommes = 0, total_non_trouves = 1, total_conflits = 0\<rparr>)"
proof -
  have a: "map_of [(''archive'', Dir []), (''taxan_bad'', Dir [])] ''archive'' = Some (Dir [])" by simp
  have b: "map_of [(''archive'', Dir []), (''taxan_bad'', Dir [])] ''taxan_bad'' = Some (Dir [])" by simp
  have p: "\<not> startswith ''archive'' ''taxan_''" "startswith ''taxan_bad'' ''taxan_''"
    "parse_datetime_from_foldername ''taxan_bad'' = None"
    by (simp_all add: scan_defs)
  show ?thesis
    using invalid_folder_name [OF a, of "[]" no_counts "[]"]
      invalid_folder_name [OF b, of "[]" no_counts "[]"] p
    by (simp add: no_counts_def)
qed

text \<open>
  C8 as stated fails: the directory \<open>archive\<close> has no prefix, and after the loop body the
  unmatched counter is what it was.
\<close>

theorem missing_prefix_not_counted:
  "\<not> startswith ''archive'' ''taxan_'' \<and> parse_datetime_from_foldername ''archive'' = None \<and>
   total_non_trouves (snd (loop_body rename_files [] ''archive'' ([(''archive'', Dir [])], no_counts)))
     \<noteq> total_non_trouves no_counts + 1"
  by (simp add: loop_body_def os_stat_def parse_datetime_from_foldername_def startswith_def no_counts_def)

section \<open>The registry loader\<close>

lemma second_conversion_id:
  "length ms = length xs \<Longrightarrow>
   map (\<lambda>(m, v). if m then to_datetime_dt64 fmt v else v) (zip ms xs) = xs"
  by (induction ms xs rule: list_induct2) (simp_all add: to_datetime_dt64_def)

lemma convert_column_map: "convert_column col = map (to_datetime_coerce With_fraction) col"
  unfolding convert_column_def Let_def by (simp add: second_conversion_id)

lemma zip_maps: "zip xs (zip (map f xs) (map g xs)) = map (\<lambda>x. (x, f x, g x)) xs"
  by (induction xs) auto

lemma load_registry_rows:
  "load_registry sh =
     map (\<lambda>r. \<lparr>ID = raw_ID r, date_enr = to_datetime_coerce With_fraction (raw_enr r),
               date_maj = to_datetime_coerce With_fraction (raw_maj r)\<rparr>)
       (filter (\<lambda>r. to_datetime_coerce With_fraction (raw_enr r) \<noteq> None \<and>
                    to_datetime_coerce With_fraction (raw_maj r) \<noteq> None) (rows sh))"
  by (simp add: load_registry_def convert_column_map zip_maps dropna_def Let_def filter_map comp_def)

text \<open>
  C6. A row with a timestamp cell that neither format parses is dropped: the registry loaded
  is the one loaded without the row. The load has no failing branch, and a run whose
  preconditions hold completes with the registry of the other rows.
\<close>

theorem unparsable_row_dropped:
  assumes "unparsable (raw_enr r) \<or> unparsable (raw_maj r)"
  shows "load_registry \<lparr>columns = cols, rows = pre @ r # post\<rparr> = load_registry \<lparr>columns = cols, rows = pre @ post\<rparr> \<and>
         (\<not> fatal_precondition fs excel taxan_dir \<and>
          read_excel fs excel ''Visiteurs ARESIA'' = Some \<lparr>columns = cols, rows = pre @ r # post\<rparr> \<longrightarrow>
            (\<exists>c. main excel taxan_dir fs =
               (Completed c, fs(taxan_dir \<mapsto> Dir (fst (process_root rename_files
                   (load_registry \<lparr>columns = cols, rows = pre @ post\<rparr>) (listing fs taxan_dir)))))))"
proof -
  have drop: "load_registry \<lparr>columns = cols, rows = pre @ r # post\<rparr> = load_registry \<lparr>columns = cols, rows = pre @ post\<rparr>"
    using assms by (auto simp: load_registry_rows unparsable_def)
  show ?thesis
    using drop
    by (auto simp: main_def parse_args_def getattr_def Let_def fatal_precondition_def isdir_exists
        split: option.splits prod.splits)
qed

theorem unparsable_row_dropped_witness:
  "unparsable (CStr ''hier'') \<and>
   load_registry \<lparr>columns = required_cols,
      rows = [\<lparr>raw_ID = ''13'', raw_enr = CStr ''hier'', raw_maj = CStr ''2025-06-03T15:00:00.000Z''\<rparr>,
              \<lparr>raw_ID = ''42'', raw_enr = CStr ''2025-06-03T14:00:00.000Z'', raw_maj = CStr ''2025-06-03T15:00:00.000Z''\<rparr>]\<rparr> =
     [ex_user ''42'' 14 15]"
proof -
  have u: "unparsable (raw_enr \<lparr>raw_ID = ''13'', raw_enr = CStr ''hier'', raw_maj = CStr ''2025-06-03T15:00:00.000Z''\<rparr>)
     \<or> unparsable (raw_maj \<lparr>raw_ID = ''13'', raw_enr = CStr ''hier'', raw_maj = CStr ''2025-06-03T15:00:00.000Z''\<rparr>)"
    by (simp add: unparsable_def scan_defs)
  have rest: "load_registry \<lparr>columns = required_cols,
      rows = [] @ [\<lparr>raw_ID = ''42'', raw_enr = CStr ''2025-06-03T14:00:00.000Z'', raw_maj = CStr ''2025-06-03T15:00:00.000Z''\<rparr>]\<rparr> =
     [ex_user ''42'' 14 15]"
    by (simp add: ex_defs reg_defs scan_defs)
  have u0: "unparsable (CStr ''hier'')"
    by (simp add: unparsable_def scan_defs)
  show ?thesis
    using u0 rest unparsable_row_dropped [OF u, of required_cols "[]"
        "[\<lparr>raw_ID = ''42'', raw_enr = CStr ''2025-06-03T14:00:00.000Z'', raw_maj = CStr ''2025-06-03T15:00:00.000Z''\<rparr>]"
        "\<lambda>p. None" "''x''" "''t''"]
    by simp
qed

text \<open>
  C7 fails on the code. Both cells of the row below are in the second format, which parses
  them; the loader returns no row. The first conversion has turned the cells into NaT and
  overwritten the column, so the second conversion has no string to parse.
\<close>

theorem second_format_row_dropped:
  "pd_strptime Without_fraction ''2025-06-03T14:00:00Z'' = Some (ex_dt 14 0 0) \<and>
   pd_strptime Without_fraction ''2025-06-03T15:00:00Z'' = Some (ex_dt 15 0 0) \<and>
   load_registry (ex_sheet ''2025-06-03T14:00:00Z'' ''2025-06-03T15:00:00Z'') = [] \<and>
   load_registry (ex_sheet ''2025-06-03T14:00:00.000Z'' ''2025-06-03T15:00:00.000Z'') = [ex_user ''42'' 14 15]"
  by (simp add: ex_defs reg_defs scan_defs)

section \<open>Running the tool twice\<close>
































end
